theory Spec2Isabelle
  imports Main "HOL-Library.DAList"
begin

section \<open>Data model of the relay feature store\<close>

text \<open>
  The development embeds \<^verbatim>\<open>internal/store/relay_feature_store.go\<close>. The feature store that
  the relay wraps, the three event publishers and the loggers are interfaces of other
  packages: the store is a parameter of the model (a record of operations over a store state
  of any type), and every call on a publisher or a logger is recorded, in program order, in
  a trace of effects. Each operation runs to completion on the world it is given;
  interleavings with other goroutines are not modelled.
\<close>

text \<open>\<^verbatim>\<open>ld.VersionedDataKind\<close>: the two kinds the relay names, and any other kind.\<close>

datatype VersionedDataKind = Features | Segments | OtherKind string

text \<open>\<^verbatim>\<open>ld.VersionedData\<close>: what the interface exposes of an item.\<close>

record VersionedData =
  GetKey :: string
  GetVersion :: int
  IsDeleted :: bool

text \<open>
  A Go map with string keys is either nil (\<open>None\<close>) or a map with distinct keys; the
  order of the entries is the order in which a \<^verbatim>\<open>range\<close> loop visits them.
  \<open>itemMap\<close> is \<^verbatim>\<open>map[string]ld.VersionedData\<close>.
\<close>

type_synonym 'v gomap = "(string, 'v) alist option"

type_synonym itemMap = "VersionedData gomap"

text \<open>
  \<^verbatim>\<open>map[ld.VersionedDataKind]map[string]ld.VersionedData\<close>, read by indexing only: a kind
  that is absent yields the nil map.
\<close>

type_synonym allData = "VersionedDataKind \<Rightarrow> itemMap"

datatype error = Error string

fun Error_msg :: "error \<Rightarrow> string" where
  "Error_msg (Error m) = m"

text \<open>
  The five event types. The payloads stay structured: their JSON encoding
  (\<^verbatim>\<open>Data()\<close>) is not part of the model.
\<close>

datatype event =
    flagsPutEvent itemMap
  | allPutEvent "itemMap gomap"
  | deleteEvent string int
  | upsertEvent string VersionedData
  | pingEvent

fun Event :: "event \<Rightarrow> string" where
  "Event (flagsPutEvent t) = ''put''"
| "Event (allPutEvent t) = ''put''"
| "Event (upsertEvent p d) = ''patch''"
| "Event (deleteEvent p v) = ''delete''"
| "Event pingEvent = ''ping''"

text \<open>The fields \<^verbatim>\<open>Path\<close> and \<^verbatim>\<open>Version\<close> of the upsert and delete events.\<close>

fun Path :: "event \<Rightarrow> string option" where
  "Path (upsertEvent p d) = Some p"
| "Path (deleteEvent p v) = Some p"
| "Path e = None"

fun Version :: "event \<Rightarrow> int option" where
  "Version (deleteEvent p v) = Some v"
| "Version e = None"

subsection \<open>The store interface\<close>

text \<open>
  \<^verbatim>\<open>ld.FeatureStore\<close>. A Go result \<^verbatim>\<open>(value, error)\<close> is a sum (the relay reads the
  value only after it has found the error nil), a result \<^verbatim>\<open>error\<close> an option (\<open>None\<close> is
  nil). \<^verbatim>\<open>Get\<close>, \<^verbatim>\<open>All\<close> and \<^verbatim>\<open>Initialized\<close> read the store state; \<^verbatim>\<open>Init\<close>,
  \<^verbatim>\<open>Delete\<close> and \<^verbatim>\<open>Upsert\<close> return the new one.
\<close>

record 's FeatureStore =
  store_Get :: "VersionedDataKind \<Rightarrow> string \<Rightarrow> 's \<Rightarrow> error + VersionedData option"
  store_All :: "VersionedDataKind \<Rightarrow> 's \<Rightarrow> error + itemMap"
  store_Init :: "allData \<Rightarrow> 's \<Rightarrow> error option \<times> 's"
  store_Delete :: "VersionedDataKind \<Rightarrow> string \<Rightarrow> int \<Rightarrow> 's \<Rightarrow> error option \<times> 's"
  store_Upsert :: "VersionedDataKind \<Rightarrow> VersionedData \<Rightarrow> 's \<Rightarrow> error option \<times> 's"
  store_Initialized :: "'s \<Rightarrow> bool"

subsection \<open>Publishers, loggers and the trace of effects\<close>

datatype repository = allRepository | flagsRepository | pingRepository

text \<open>The three publisher fields of the relay.\<close>

datatype publisher = allPublisher | flagsPublisher | pingPublisher

datatype arg = S string | I int

text \<open>
  One constructor for each method the relay calls on a publisher
  (\<^verbatim>\<open>Publish\<close>, \<^verbatim>\<open>PublishComment\<close>, \<^verbatim>\<open>Register\<close>), on its own loggers
  (\<^verbatim>\<open>Debug\<close>, \<^verbatim>\<open>Debugf\<close>) and on \<^verbatim>\<open>logging.GlobalLoggers\<close> (\<^verbatim>\<open>Errorf\<close>).
\<close>

datatype effect =
    Publish publisher "string list" event
  | PublishComment publisher "string list" string
  | Register publisher string repository
  | Debug string
  | Debugf string "arg list"
  | GlobalErrorf string "arg list"

record 's world =
  storeState :: 's
  effects :: "effect list"

definition emit :: "effect \<Rightarrow> 's world \<Rightarrow> 's world" where
  "emit e w = w\<lparr>effects := effects w @ [e]\<rparr>"

text \<open>What a trace publishes through one publisher, oldest first.\<close>

fun publishedOn :: "publisher \<Rightarrow> effect list \<Rightarrow> (string list \<times> event) list" where
  "publishedOn p [] = []"
| "publishedOn p (Publish q ks ev # es) =
     (if q = p then (ks, ev) # publishedOn p es else publishedOn p es)"
| "publishedOn p (e # es) = publishedOn p es"

fun commentsOn :: "publisher \<Rightarrow> effect list \<Rightarrow> (string list \<times> string) list" where
  "commentsOn p [] = []"
| "commentsOn p (PublishComment q ks text # es) =
     (if q = p then (ks, text) # commentsOn p es else commentsOn p es)"
| "commentsOn p (e # es) = commentsOn p es"

text \<open>Every call on a publisher, with the publisher it goes to.\<close>

fun isPublisherCall :: "effect \<Rightarrow> bool" where
  "isPublisherCall (Publish q ks ev) = True"
| "isPublisherCall (PublishComment q ks text) = True"
| "isPublisherCall (Register q k r) = True"
| "isPublisherCall e = False"

definition publisherCalls :: "effect list \<Rightarrow> effect list" where
  "publisherCalls es = filter isPublisherCall es"

section \<open>The event encoder\<close>

definition dataKindApiName :: "VersionedDataKind \<rightharpoonup> string" where
  "dataKindApiName = [Features \<mapsto> ''flags'', Segments \<mapsto> ''segments'']"

text \<open>Indexing a Go map of strings: a missing key yields the empty string.\<close>

definition apiNameOf :: "VersionedDataKind \<Rightarrow> string" where
  "apiNameOf kind = (case dataKindApiName kind of Some name \<Rightarrow> name | None \<Rightarrow> [])"

definition makeUpsertEvent :: "VersionedDataKind \<Rightarrow> VersionedData \<Rightarrow> event" where
  "makeUpsertEvent kind item = upsertEvent (''/'' @ apiNameOf kind @ ''/'' @ GetKey item) item"

definition makeFlagsUpsertEvent :: "VersionedData \<Rightarrow> event" where
  "makeFlagsUpsertEvent item = upsertEvent (''/'' @ GetKey item) item"

definition makeDeleteEvent :: "VersionedDataKind \<Rightarrow> string \<Rightarrow> int \<Rightarrow> event" where
  "makeDeleteEvent kind key version = deleteEvent (''/'' @ apiNameOf kind @ ''/'' @ key) version"

definition makeFlagsDeleteEvent :: "string \<Rightarrow> int \<Rightarrow> event" where
  "makeFlagsDeleteEvent key version = deleteEvent (''/'' @ key) version"

text \<open>The entries a \<^verbatim>\<open>range\<close> loop visits: none for the nil map.\<close>

definition rangeOf :: "itemMap \<Rightarrow> (string \<times> VersionedData) list" where
  "rangeOf m = (case m of None \<Rightarrow> [] | Some al \<Rightarrow> DAList.impl_of al)"

text \<open>
  \<^verbatim>\<open>makePutEvent\<close>: the literal creates two empty inner maps, the two loops fill them
  entry by entry (\<^verbatim>\<open>allData["flags"]\<close> and \<^verbatim>\<open>allData["segments"]\<close> denote these two
  maps throughout), and the outer map holds them under its two keys.
\<close>

definition makePutEvent :: "itemMap \<Rightarrow> itemMap \<Rightarrow> event" where
  "makePutEvent flags segments =
     (let flagsObj = fold (\<lambda>(key, flag) m. DAList.update key flag m) (rangeOf flags) DAList.empty;
          segmentsObj = fold (\<lambda>(key, seg) m. DAList.update key seg m) (rangeOf segments) DAList.empty;
          allData = DAList.update ''segments'' (Some segmentsObj)
                      (DAList.update ''flags'' (Some flagsObj) DAList.empty)
      in allPutEvent (Some allData))"

definition makeFlagsPutEvent :: "itemMap \<Rightarrow> event" where
  "makeFlagsPutEvent flags = flagsPutEvent flags"

definition makePingEvent :: event where
  "makePingEvent = pingEvent"

section \<open>The relay feature store\<close>

text \<open>
  \<^verbatim>\<open>SSERelayFeatureStore\<close>: the wrapped store and the credential. Its publishers and
  loggers are the tags of the effects.
\<close>

record 's SSERelayFeatureStore =
  store :: "'s FeatureStore"
  apiKey :: string

definition keys :: "'s SSERelayFeatureStore \<Rightarrow> string list" where
  "keys relay = [apiKey relay]"

definition heartbeat :: "'s SSERelayFeatureStore \<Rightarrow> 's world \<Rightarrow> 's world" where
  "heartbeat relay w =
     (let w1 = emit (PublishComment allPublisher (keys relay) '''') w;
          w2 = emit (PublishComment flagsPublisher (keys relay) '''') w1;
          w3 = emit (PublishComment pingPublisher (keys relay) '''') w2
      in w3)"

definition Get :: "'s SSERelayFeatureStore \<Rightarrow> VersionedDataKind \<Rightarrow> string \<Rightarrow> 's world
    \<Rightarrow> error + VersionedData option" where
  "Get relay kind key w = store_Get (store relay) kind key (storeState w)"

definition All_relay :: "'s SSERelayFeatureStore \<Rightarrow> VersionedDataKind \<Rightarrow> 's world
    \<Rightarrow> error + itemMap" where
  "All_relay relay kind w = store_All (store relay) kind (storeState w)"

definition Initialized :: "'s SSERelayFeatureStore \<Rightarrow> 's world \<Rightarrow> bool" where
  "Initialized relay w = store_Initialized (store relay) (storeState w)"

definition Init :: "'s SSERelayFeatureStore \<Rightarrow> allData \<Rightarrow> 's world \<Rightarrow> error option \<times> 's world" where
  "Init relay allData w =
     (let w1 = emit (Debug ''Received all feature flags'') w;
          (err, s) = store_Init (store relay) allData (storeState w1);
          w2 = w1\<lparr>storeState := s\<rparr>
      in if err \<noteq> None then (err, w2)
         else
           let w3 = emit (Publish allPublisher (keys relay)
                            (makePutEvent (allData Features) (allData Segments))) w2;
               w4 = emit (Publish flagsPublisher (keys relay)
                            (makeFlagsPutEvent (allData Features))) w3;
               w5 = emit (Publish pingPublisher (keys relay) makePingEvent) w4
           in (None, w5))"

definition Delete :: "'s SSERelayFeatureStore \<Rightarrow> VersionedDataKind \<Rightarrow> string \<Rightarrow> int \<Rightarrow> 's world
    \<Rightarrow> error option \<times> 's world" where
  "Delete relay kind key version w =
     (let w1 = emit (Debugf ''Received feature flag deletion: %s (version %d)''
                       [S key, I version]) w;
          (err, s) = store_Delete (store relay) kind key version (storeState w1);
          w2 = w1\<lparr>storeState := s\<rparr>
      in if err \<noteq> None then (err, w2)
         else
           let w3 = emit (Debugf ''Feature flag %s was deleted (version %d)''
                            [S key, I version]) w2;
               w4 = emit (Publish allPublisher (keys relay)
                            (makeDeleteEvent kind key version)) w3;
               w5 = (if kind = Features
                     then emit (Publish flagsPublisher (keys relay)
                                  (makeFlagsDeleteEvent key version)) w4
                     else w4);
               w6 = emit (Publish pingPublisher (keys relay) makePingEvent) w5
           in (None, w6))"

text \<open>
  \<^verbatim>\<open>Upsert\<close> takes an item, not nil: the Go method calls \<^verbatim>\<open>item.GetKey()\<close> before
  anything else.
\<close>

definition Upsert :: "'s SSERelayFeatureStore \<Rightarrow> VersionedDataKind \<Rightarrow> VersionedData \<Rightarrow> 's world
    \<Rightarrow> error option \<times> 's world" where
  "Upsert relay kind item w =
     (let w1 = emit (Debugf ''Received feature flag update: %s (version %d)''
                       [S (GetKey item), I (GetVersion item)]) w;
          (err, s) = store_Upsert (store relay) kind item (storeState w1);
          w2 = w1\<lparr>storeState := s\<rparr>
      in if err \<noteq> None then (err, w2)
         else
           case store_Get (store relay) kind (GetKey item) (storeState w2) of
             Inl err \<Rightarrow> (Some err, w2)
           | Inr None \<Rightarrow> (None, w2)
           | Inr (Some newItem) \<Rightarrow>
               let w3 = emit (Debugf ''allPublisher publish event with: %s (version %d)''
                                [S (GetKey newItem), I (GetVersion newItem)]) w2;
                   w4 = emit (Publish allPublisher (keys relay)
                                (makeUpsertEvent kind newItem)) w3;
                   w5 = (if kind = Features
                         then emit (Publish flagsPublisher (keys relay)
                                      (makeFlagsUpsertEvent newItem)) w4
                         else w4);
                   w6 = emit (Publish pingPublisher (keys relay) makePingEvent) w5
               in (None, w6))"

section \<open>The bootstrap repositories\<close>

text \<open>
  A replay returns the events its goroutine sends on \<^verbatim>\<open>out\<close> before closing it, and the
  world with what it logged.
\<close>

definition flagsRepository_Replay :: "'s SSERelayFeatureStore \<Rightarrow> string \<Rightarrow> string \<Rightarrow> 's world
    \<Rightarrow> event list \<times> 's world" where
  "flagsRepository_Replay relayStore channel ident w =
     (if Initialized relayStore w then
        (case All_relay relayStore Features w of
           Inl err \<Rightarrow>
             ([], emit (GlobalErrorf (''Error getting all flags: %s'' @ [CHR 0x0A])
                          [S (Error_msg err)]) w)
         | Inr flags \<Rightarrow> ([makeFlagsPutEvent flags], w))
      else ([], w))"

definition allRepository_Replay :: "'s SSERelayFeatureStore \<Rightarrow> string \<Rightarrow> string \<Rightarrow> 's world
    \<Rightarrow> event list \<times> 's world" where
  "allRepository_Replay relayStore channel ident w =
     (if Initialized relayStore w then
        (case All_relay relayStore Features w of
           Inl err \<Rightarrow>
             ([], emit (GlobalErrorf (''Error getting all flags: %s'' @ [CHR 0x0A])
                          [S (Error_msg err)]) w)
         | Inr flags \<Rightarrow>
             (case All_relay relayStore Segments w of
                Inl err \<Rightarrow>
                  ([], emit (GlobalErrorf (''Error getting all segments: %s'' @ [CHR 0x0A])
                               [S (Error_msg err)]) w)
              | Inr segments \<Rightarrow> ([makePutEvent flags segments], w)))
      else ([], w))"

definition pingRepository_Replay :: "'s SSERelayFeatureStore \<Rightarrow> string \<Rightarrow> string \<Rightarrow> 's world
    \<Rightarrow> event list \<times> 's world" where
  "pingRepository_Replay relayStore channel ident w = ([makePingEvent], w)"

section \<open>Construction and the heartbeat loop\<close>

text \<open>
  The loop of the constructor's goroutine: \<^verbatim>\<open>for { relayStore.heartbeat(); <-t.C }\<close>. The
  channel of the ticker is represented by the number of ticks it has delivered so far;
  the result is the world at the moment the loop waits for the next one.
\<close>

fun heartbeatLoop :: "'s SSERelayFeatureStore \<Rightarrow> nat \<Rightarrow> 's world \<Rightarrow> 's world" where
  "heartbeatLoop relayStore 0 w = heartbeat relayStore w"
| "heartbeatLoop relayStore (Suc ticks) w = heartbeatLoop relayStore ticks (heartbeat relayStore w)"

text \<open>
  \<^verbatim>\<open>heartbeatInterval\<close> is a Go \<^verbatim>\<open>int\<close>, of 64 bits; a \<^verbatim>\<open>time.Duration\<close> is an
  \<^verbatim>\<open>int64\<close> of nanoseconds, and its arithmetic wraps. \<open>int64\<close> is the value of an integer
  as a signed 64-bit number.
\<close>

definition int64 :: "int \<Rightarrow> int" where
  "int64 x = (x + 2 ^ 63) mod 2 ^ 64 - 2 ^ 63"

definition Second :: int where
  "Second = 1000000000"

datatype panic = Panic string

text \<open>
  \<^verbatim>\<open>time.NewTicker\<close> of the Go standard library: the duration must be greater than zero,
  otherwise it panics. A ticker is represented by its period.
\<close>

definition NewTicker :: "int \<Rightarrow> panic + int" where
  "NewTicker d =
     (if d \<le> 0 then Inl (Panic ''non-positive interval for NewTicker'') else Inr d)"

text \<open>
  The goroutine of the constructor creates the ticker, with a period of
  \<^verbatim>\<open>time.Duration(heartbeatInterval) * time.Second\<close>, and then runs the loop. A panic ends
  it before the loop is entered.
\<close>

definition heartbeatGoroutine :: "'s SSERelayFeatureStore \<Rightarrow> int \<Rightarrow> nat \<Rightarrow> 's world
    \<Rightarrow> panic + 's world" where
  "heartbeatGoroutine relayStore heartbeatInterval ticks w =
     (case NewTicker (int64 (int64 heartbeatInterval * Second)) of
        Inl p \<Rightarrow> Inl p
      | Inr t \<Rightarrow> Inr (heartbeatLoop relayStore ticks w))"

text \<open>
  \<^verbatim>\<open>NewSSERelayFeatureStore\<close> returns the relay, the goroutine it has started (if any) and
  the world after the three registrations.
\<close>

definition NewSSERelayFeatureStore :: "string \<Rightarrow> 's FeatureStore \<Rightarrow> int \<Rightarrow> 's world
    \<Rightarrow> 's SSERelayFeatureStore \<times> (nat \<Rightarrow> 's world \<Rightarrow> panic + 's world) option \<times> 's world" where
  "NewSSERelayFeatureStore key baseFeatureStore heartbeatInterval w =
     (let relayStore = \<lparr>store = baseFeatureStore, apiKey = key\<rparr>;
          w1 = emit (Register allPublisher key allRepository) w;
          w2 = emit (Register flagsPublisher key flagsRepository) w1;
          w3 = emit (Register pingPublisher key pingRepository) w2
      in (relayStore,
          (if heartbeatInterval > 0
           then Some (heartbeatGoroutine relayStore heartbeatInterval) else None),
          w3))"

section \<open>An in-memory store\<close>

text \<open>
  A store to run the relay on: it keeps, for each kind, the items by key, tombstones
  included. A write with a version that is not newer than the stored one changes nothing
  and reports no error; \<^verbatim>\<open>Get\<close> and \<^verbatim>\<open>All\<close> do not return tombstones. The two error
  fields make every write, or every read, fail.
\<close>

record mem =
  memData :: "VersionedDataKind \<Rightarrow> (string, VersionedData) alist"
  memInited :: bool
  memWriteErr :: "error option"
  memReadErr :: "error option"

definition mem_Get :: "VersionedDataKind \<Rightarrow> string \<Rightarrow> mem \<Rightarrow> error + VersionedData option" where
  "mem_Get kind key s =
     (case memReadErr s of
        Some e \<Rightarrow> Inl e
      | None \<Rightarrow>
          (case DAList.lookup (memData s kind) key of
             None \<Rightarrow> Inr None
           | Some item \<Rightarrow> if IsDeleted item then Inr None else Inr (Some item)))"

definition mem_All :: "VersionedDataKind \<Rightarrow> mem \<Rightarrow> error + itemMap" where
  "mem_All kind s =
     (case memReadErr s of
        Some e \<Rightarrow> Inl e
      | None \<Rightarrow> Inr (Some (DAList.filter (\<lambda>(k, item). \<not> IsDeleted item) (memData s kind))))"

definition mem_Init :: "allData \<Rightarrow> mem \<Rightarrow> error option \<times> mem" where
  "mem_Init allData s =
     (case memWriteErr s of
        Some e \<Rightarrow> (Some e, s)
      | None \<Rightarrow>
          (None, s\<lparr>memData := (\<lambda>kind. case allData kind of None \<Rightarrow> DAList.empty | Some m \<Rightarrow> m),
                   memInited := True\<rparr>))"

definition mem_Upsert :: "VersionedDataKind \<Rightarrow> VersionedData \<Rightarrow> mem \<Rightarrow> error option \<times> mem" where
  "mem_Upsert kind item s =
     (case memWriteErr s of
        Some e \<Rightarrow> (Some e, s)
      | None \<Rightarrow>
          (case DAList.lookup (memData s kind) (GetKey item) of
             None \<Rightarrow>
               (None, s\<lparr>memData := (memData s)(kind := DAList.update (GetKey item) item (memData s kind))\<rparr>)
           | Some old \<Rightarrow>
               if GetVersion item \<le> GetVersion old then (None, s)
               else (None, s\<lparr>memData := (memData s)(kind := DAList.update (GetKey item) item (memData s kind))\<rparr>)))"

definition mem_Delete :: "VersionedDataKind \<Rightarrow> string \<Rightarrow> int \<Rightarrow> mem \<Rightarrow> error option \<times> mem" where
  "mem_Delete kind key version s =
     mem_Upsert kind \<lparr>GetKey = key, GetVersion = version, IsDeleted = True\<rparr> s"

definition memStore :: "mem FeatureStore" where
  "memStore = \<lparr>store_Get = mem_Get, store_All = mem_All, store_Init = mem_Init,
               store_Delete = mem_Delete, store_Upsert = mem_Upsert,
               store_Initialized = memInited\<rparr>"

definition memEmpty :: mem where
  "memEmpty = \<lparr>memData = (\<lambda>kind. DAList.empty), memInited = False,
               memWriteErr = None, memReadErr = None\<rparr>"

definition memRelay :: "mem SSERelayFeatureStore" where
  "memRelay = \<lparr>store = memStore, apiKey = ''sdk-key''\<rparr>"

text \<open>Sample worlds: an empty store, a store whose writes fail, a store whose reads fail,
  and a store that holds the tombstones of a flag and of a segment at version 5.\<close>

definition freshWorld :: "mem world" where
  "freshWorld = \<lparr>storeState = memEmpty, effects = []\<rparr>"

definition writeFailsWorld :: "mem world" where
  "writeFailsWorld =
     \<lparr>storeState = memEmpty\<lparr>memWriteErr := Some (Error ''store unavailable'')\<rparr>, effects = []\<rparr>"

definition readFailsWorld :: "mem world" where
  "readFailsWorld =
     \<lparr>storeState = memEmpty\<lparr>memReadErr := Some (Error ''read failed'')\<rparr>, effects = []\<rparr>"

definition tombstoneWorld :: "mem world" where
  "tombstoneWorld =
     \<lparr>storeState = memEmpty
        \<lparr>memData := (\<lambda>kind. DAList.empty)
           (Features := DAList.update ''f''
                          \<lparr>GetKey = ''f'', GetVersion = 5, IsDeleted = True\<rparr> DAList.empty,
            Segments := DAList.update ''s''
                          \<lparr>GetKey = ''s'', GetVersion = 5, IsDeleted = True\<rparr> DAList.empty),
         memInited := True\<rparr>,
      effects = []\<rparr>"

definition flag1 :: VersionedData where
  "flag1 = \<lparr>GetKey = ''f'', GetVersion = 1, IsDeleted = False\<rparr>"

definition seg1 :: VersionedData where
  "seg1 = \<lparr>GetKey = ''s'', GetVersion = 1, IsDeleted = False\<rparr>"

text \<open>A store that holds flag f, live, at version 5.\<close>

definition flag5 :: VersionedData where
  "flag5 = \<lparr>GetKey = ''f'', GetVersion = 5, IsDeleted = False\<rparr>"

definition liveWorld :: "mem world" where
  "liveWorld =
     \<lparr>storeState = memEmpty
        \<lparr>memData := (\<lambda>kind. DAList.empty)(Features := DAList.update ''f'' flag5 DAList.empty),
         memInited := True\<rparr>,
      effects = []\<rparr>"

text \<open>The entries of a Go map as a partial function: none for the nil map.\<close>

definition entriesOf :: "itemMap \<Rightarrow> (string \<rightharpoonup> VersionedData)" where
  "entriesOf m = (case m of None \<Rightarrow> Map.empty | Some al \<Rightarrow> DAList.lookup al)"

text \<open>An input of Init: one flag, and no segment.\<close>

definition initInput :: allData where
  "initInput = (\<lambda>kind. None)
     (Features := Some (DAList.update ''f'' flag1 DAList.empty), Segments := Some DAList.empty)"

section \<open>Basic facts about the trace\<close>

lemma effects_emit [simp]: "effects (emit e w) = effects w @ [e]"
  by (simp add: emit_def)

lemma storeState_emit [simp]: "storeState (emit e w) = storeState w"
  by (simp add: emit_def)

lemma publishedOn_append [simp]:
  "publishedOn p (xs @ ys) = publishedOn p xs @ publishedOn p ys"
  by (induction p xs rule: publishedOn.induct) auto

lemma commentsOn_append [simp]:
  "commentsOn p (xs @ ys) = commentsOn p xs @ commentsOn p ys"
  by (induction p xs rule: commentsOn.induct) auto

lemma publisherCalls_append [simp]:
  "publisherCalls (xs @ ys) = publisherCalls xs @ publisherCalls ys"
  by (simp add: publisherCalls_def)

lemma publisherCalls_Nil [simp]: "publisherCalls [] = []"
  by (simp add: publisherCalls_def)

lemma publisherCalls_Cons [simp]:
  "publisherCalls (e # es) = (if isPublisherCall e then e # publisherCalls es else publisherCalls es)"
  by (simp add: publisherCalls_def)

lemmas event_defs = makeUpsertEvent_def makeFlagsUpsertEvent_def makeDeleteEvent_def
  makeFlagsDeleteEvent_def makePingEvent_def makeFlagsPutEvent_def apiNameOf_def dataKindApiName_def

lemmas mem_defs = memRelay_def memStore_def mem_Get_def mem_All_def mem_Init_def mem_Upsert_def
  mem_Delete_def memEmpty_def

lemmas world_defs = freshWorld_def writeFailsWorld_def readFailsWorld_def tombstoneWorld_def
  liveWorld_def flag1_def seg1_def flag5_def

lemmas alist_eval = alist_eq_iff DAList.filter.rep_eq DAList.update.rep_eq DAList.empty.rep_eq

section \<open>Failed writes\<close>

text \<open>
  Claim C1. When the store's write reports an error, Init, Upsert and Delete return that
  error to the caller, and make no call on any of the three publishers: nothing is
  published on the All, Flags or Ping channel.
\<close>

theorem write_error_nothing_published:
  "(fst (store_Init (store relay) allData (storeState w)) = Some e \<longrightarrow>
      fst (Init relay allData w) = Some e \<and>
      publisherCalls (effects (snd (Init relay allData w))) = publisherCalls (effects w)) \<and>
   (fst (store_Upsert (store relay) kind item (storeState w)) = Some e \<longrightarrow>
      fst (Upsert relay kind item w) = Some e \<and>
      publisherCalls (effects (snd (Upsert relay kind item w))) = publisherCalls (effects w)) \<and>
   (fst (store_Delete (store relay) kind key version (storeState w)) = Some e \<longrightarrow>
      fst (Delete relay kind key version w) = Some e \<and>
      publisherCalls (effects (snd (Delete relay kind key version w))) = publisherCalls (effects w))"
  by (simp add: Init_def Upsert_def Delete_def Let_def split: prod.splits)

theorem write_error_nothing_published_witness:
  "fst (store_Init (store memRelay) (\<lambda>kind. None) (storeState writeFailsWorld))
     = Some (Error ''store unavailable'') \<and>
   fst (store_Upsert (store memRelay) Features flag1 (storeState writeFailsWorld))
     = Some (Error ''store unavailable'') \<and>
   fst (store_Delete (store memRelay) Features ''f'' 2 (storeState writeFailsWorld))
     = Some (Error ''store unavailable'') \<and>
   fst (Init memRelay (\<lambda>kind. None) writeFailsWorld) = Some (Error ''store unavailable'') \<and>
   fst (Upsert memRelay Features flag1 writeFailsWorld) = Some (Error ''store unavailable'') \<and>
   fst (Delete memRelay Features ''f'' 2 writeFailsWorld) = Some (Error ''store unavailable'') \<and>
   publisherCalls (effects (snd (Init memRelay (\<lambda>kind. None) writeFailsWorld))) = [] \<and>
   publisherCalls (effects (snd (Upsert memRelay Features flag1 writeFailsWorld))) = [] \<and>
   publisherCalls (effects (snd (Delete memRelay Features ''f'' 2 writeFailsWorld))) = []"
proof -
  have h1: "fst (store_Init (store memRelay) (\<lambda>kind. None) (storeState writeFailsWorld))
     = Some (Error ''store unavailable'')"
    by (simp add: mem_defs world_defs)
  have h2: "fst (store_Upsert (store memRelay) Features flag1 (storeState writeFailsWorld))
     = Some (Error ''store unavailable'')"
    by (simp add: mem_defs world_defs)
  have h3: "fst (store_Delete (store memRelay) Features ''f'' 2 (storeState writeFailsWorld))
     = Some (Error ''store unavailable'')"
    by (simp add: mem_defs world_defs)
  have e: "publisherCalls (effects writeFailsWorld) = []"
    by (simp add: world_defs)
  show ?thesis
    using h1 h2 h3 e
      write_error_nothing_published [of memRelay "\<lambda>kind. None" writeFailsWorld
        "Error ''store unavailable''" Features flag1 "''f''" 2]
    by simp
qed

section \<open>What each mutation does, case by case\<close>

lemma Init_write_error:
  assumes "store_Init (store relay) allData (storeState w) = (Some e, s)"
  shows "Init relay allData w =
    (Some e, (emit (Debug ''Received all feature flags'') w)\<lparr>storeState := s\<rparr>)"
  using assms by (simp add: Init_def Let_def)

lemma Init_write_ok:
  assumes "store_Init (store relay) allData (storeState w) = (None, s)"
  shows "fst (Init relay allData w) = None"
    and "storeState (snd (Init relay allData w)) = s"
    and "effects (snd (Init relay allData w)) = effects w @
      [Debug ''Received all feature flags'',
       Publish allPublisher (keys relay) (makePutEvent (allData Features) (allData Segments)),
       Publish flagsPublisher (keys relay) (makeFlagsPutEvent (allData Features)),
       Publish pingPublisher (keys relay) makePingEvent]"
  using assms by (simp_all add: Init_def Let_def)

lemma Delete_write_error:
  assumes "store_Delete (store relay) kind key version (storeState w) = (Some e, s)"
  shows "Delete relay kind key version w =
    (Some e, (emit (Debugf ''Received feature flag deletion: %s (version %d)''
                      [S key, I version]) w)\<lparr>storeState := s\<rparr>)"
  using assms by (simp add: Delete_def Let_def)

lemma Delete_write_ok:
  assumes "store_Delete (store relay) kind key version (storeState w) = (None, s)"
  shows "fst (Delete relay kind key version w) = None"
    and "storeState (snd (Delete relay kind key version w)) = s"
    and "effects (snd (Delete relay kind key version w)) = effects w @
      [Debugf ''Received feature flag deletion: %s (version %d)'' [S key, I version],
       Debugf ''Feature flag %s was deleted (version %d)'' [S key, I version],
       Publish allPublisher (keys relay) (makeDeleteEvent kind key version)] @
      (if kind = Features
       then [Publish flagsPublisher (keys relay) (makeFlagsDeleteEvent key version)] else []) @
      [Publish pingPublisher (keys relay) makePingEvent]"
  using assms by (simp_all add: Delete_def Let_def)

lemma Upsert_write_error:
  assumes "store_Upsert (store relay) kind item (storeState w) = (Some e, s)"
  shows "Upsert relay kind item w =
    (Some e, (emit (Debugf ''Received feature flag update: %s (version %d)''
                      [S (GetKey item), I (GetVersion item)]) w)\<lparr>storeState := s\<rparr>)"
  using assms by (simp add: Upsert_def Let_def)

lemma Upsert_read_error:
  assumes "store_Upsert (store relay) kind item (storeState w) = (None, s)"
    and "store_Get (store relay) kind (GetKey item) s = Inl e"
  shows "Upsert relay kind item w =
    (Some e, (emit (Debugf ''Received feature flag update: %s (version %d)''
                      [S (GetKey item), I (GetVersion item)]) w)\<lparr>storeState := s\<rparr>)"
  using assms by (simp add: Upsert_def Let_def)

lemma Upsert_read_nothing:
  assumes "store_Upsert (store relay) kind item (storeState w) = (None, s)"
    and "store_Get (store relay) kind (GetKey item) s = Inr None"
  shows "Upsert relay kind item w =
    (None, (emit (Debugf ''Received feature flag update: %s (version %d)''
                    [S (GetKey item), I (GetVersion item)]) w)\<lparr>storeState := s\<rparr>)"
  using assms by (simp add: Upsert_def Let_def)

lemma Upsert_read_item:
  assumes "store_Upsert (store relay) kind item (storeState w) = (None, s)"
    and "store_Get (store relay) kind (GetKey item) s = Inr (Some newItem)"
  shows "fst (Upsert relay kind item w) = None"
    and "storeState (snd (Upsert relay kind item w)) = s"
    and "effects (snd (Upsert relay kind item w)) = effects w @
      [Debugf ''Received feature flag update: %s (version %d)''
         [S (GetKey item), I (GetVersion item)],
       Debugf ''allPublisher publish event with: %s (version %d)''
         [S (GetKey newItem), I (GetVersion newItem)],
       Publish allPublisher (keys relay) (makeUpsertEvent kind newItem)] @
      (if kind = Features
       then [Publish flagsPublisher (keys relay) (makeFlagsUpsertEvent newItem)] else []) @
      [Publish pingPublisher (keys relay) makePingEvent]"
  using assms by (simp_all add: Upsert_def Let_def)

section \<open>Upsert\<close>

text \<open>
  Claim C2. When the store's write of an Upsert succeeds, the relay reads the item back
  from the store as the write left it. If the read returns an item, one upsert event
  carrying that item (not the requested one) is published on the All channel, one on the
  Flags channel exactly when the kind is the flag kind, and one ping on the Ping channel;
  a Get of the same kind and key right after the call returns the item the event carries.
  If the read returns no item, or fails, no publisher is called.
\<close>

theorem Upsert_publishes_reread_item:
  assumes "store_Upsert (store relay) kind item (storeState w) = (None, s)"
  shows "storeState (snd (Upsert relay kind item w)) = s \<and>
    (case store_Get (store relay) kind (GetKey item) s of
       Inr (Some newItem) \<Rightarrow>
         publishedOn allPublisher (effects (snd (Upsert relay kind item w))) =
           publishedOn allPublisher (effects w) @
             [(keys relay, upsertEvent (''/'' @ apiNameOf kind @ ''/'' @ GetKey newItem) newItem)] \<and>
         publishedOn flagsPublisher (effects (snd (Upsert relay kind item w))) =
           publishedOn flagsPublisher (effects w) @
             (if kind = Features
              then [(keys relay, upsertEvent (''/'' @ GetKey newItem) newItem)] else []) \<and>
         publishedOn pingPublisher (effects (snd (Upsert relay kind item w))) =
           publishedOn pingPublisher (effects w) @ [(keys relay, pingEvent)] \<and>
         Get relay kind (GetKey item) (snd (Upsert relay kind item w)) = Inr (Some newItem)
     | Inr None \<Rightarrow>
         publisherCalls (effects (snd (Upsert relay kind item w))) = publisherCalls (effects w)
     | Inl err \<Rightarrow>
         publisherCalls (effects (snd (Upsert relay kind item w))) = publisherCalls (effects w))"
proof (cases "store_Get (store relay) kind (GetKey item) s")
  case (Inl err)
  then show ?thesis
    using Upsert_read_error [OF assms Inl] by simp
next
  case (Inr found)
  show ?thesis
  proof (cases found)
    case None
    then show ?thesis
      using Inr Upsert_read_nothing [OF assms] by simp
  next
    case (Some newItem)
    with Inr have g: "store_Get (store relay) kind (GetKey item) s = Inr (Some newItem)"
      by simp
    show ?thesis
      using g Upsert_read_item [OF assms g]
      by (simp add: Get_def makeUpsertEvent_def makeFlagsUpsertEvent_def makePingEvent_def)
  qed
qed

theorem Upsert_publishes_reread_item_witness:
  "store_Upsert (store memRelay) Features flag1 (storeState liveWorld) =
     (None, storeState liveWorld) \<and>
   store_Get (store memRelay) Features (GetKey flag1) (storeState liveWorld) = Inr (Some flag5) \<and>
   publishedOn allPublisher (effects (snd (Upsert memRelay Features flag1 liveWorld))) =
     [([''sdk-key''], upsertEvent ''/flags/f'' flag5)] \<and>
   publishedOn flagsPublisher (effects (snd (Upsert memRelay Features flag1 liveWorld))) =
     [([''sdk-key''], upsertEvent ''/f'' flag5)] \<and>
   publishedOn pingPublisher (effects (snd (Upsert memRelay Features flag1 liveWorld))) =
     [([''sdk-key''], pingEvent)] \<and>
   Get memRelay Features ''f'' (snd (Upsert memRelay Features flag1 liveWorld)) = Inr (Some flag5)"
proof -
  have h: "store_Upsert (store memRelay) Features flag1 (storeState liveWorld) =
      (None, storeState liveWorld)"
    by (simp add: mem_defs world_defs)
  have g: "store_Get (store memRelay) Features (GetKey flag1) (storeState liveWorld) =
      Inr (Some flag5)"
    by (simp add: mem_defs world_defs)
  have k: "GetKey flag1 = ''f''" "GetKey flag5 = ''f''" "keys memRelay = [''sdk-key'']"
    "apiNameOf Features = ''flags''" "effects liveWorld = []"
    by (simp_all add: flag1_def flag5_def keys_def memRelay_def apiNameOf_def dataKindApiName_def
        liveWorld_def)
  show ?thesis
    using h Upsert_publishes_reread_item [OF h] g k
    by simp
qed

section \<open>Pings\<close>

text \<open>
  Claim C3, as stated, fails: an Upsert of version 1 of a flag whose tombstone the store holds
  at version 5 returns success (the store ignores the stale write, and the read that
  follows returns no item), and no ping is published.
\<close>

theorem Upsert_empty_reread_no_ping:
  "fst (Upsert memRelay Features flag1 tombstoneWorld) = None \<and>
   publishedOn pingPublisher (effects (snd (Upsert memRelay Features flag1 tombstoneWorld))) = []"
  by (simp add: Upsert_def mem_defs world_defs Let_def)

text \<open>
  Claim C3, amended. Every Init and every Delete whose write succeeds, and every Upsert whose
  write succeeds and whose re-read returns an item, returns success and publishes exactly
  one ping on the Ping channel. An Upsert whose write succeeds and whose re-read returns
  no item returns success and publishes no ping.
\<close>

theorem successful_mutation_pings:
  "(store_Init (store relay) allData (storeState w) = (None, s) \<longrightarrow>
      fst (Init relay allData w) = None \<and>
      publishedOn pingPublisher (effects (snd (Init relay allData w))) =
        publishedOn pingPublisher (effects w) @ [(keys relay, pingEvent)]) \<and>
   (store_Delete (store relay) kind key version (storeState w) = (None, s) \<longrightarrow>
      fst (Delete relay kind key version w) = None \<and>
      publishedOn pingPublisher (effects (snd (Delete relay kind key version w))) =
        publishedOn pingPublisher (effects w) @ [(keys relay, pingEvent)]) \<and>
   (store_Upsert (store relay) kind item (storeState w) = (None, s) \<and>
    store_Get (store relay) kind (GetKey item) s = Inr (Some newItem) \<longrightarrow>
      fst (Upsert relay kind item w) = None \<and>
      publishedOn pingPublisher (effects (snd (Upsert relay kind item w))) =
        publishedOn pingPublisher (effects w) @ [(keys relay, pingEvent)]) \<and>
   (store_Upsert (store relay) kind item (storeState w) = (None, s) \<and>
    store_Get (store relay) kind (GetKey item) s = Inr None \<longrightarrow>
      fst (Upsert relay kind item w) = None \<and>
      publishedOn pingPublisher (effects (snd (Upsert relay kind item w))) =
        publishedOn pingPublisher (effects w))"
proof -
  have "fst (Init relay allData w) = None \<and>
      publishedOn pingPublisher (effects (snd (Init relay allData w))) =
        publishedOn pingPublisher (effects w) @ [(keys relay, pingEvent)]"
    if "store_Init (store relay) allData (storeState w) = (None, s)"
    using Init_write_ok [OF that] by (simp add: makePingEvent_def)
  moreover have "fst (Delete relay kind key version w) = None \<and>
      publishedOn pingPublisher (effects (snd (Delete relay kind key version w))) =
        publishedOn pingPublisher (effects w) @ [(keys relay, pingEvent)]"
    if "store_Delete (store relay) kind key version (storeState w) = (None, s)"
    using Delete_write_ok [OF that] by (simp add: makePingEvent_def)
  moreover have "fst (Upsert relay kind item w) = None \<and>
      publishedOn pingPublisher (effects (snd (Upsert relay kind item w))) =
        publishedOn pingPublisher (effects w) @ [(keys relay, pingEvent)]"
    if "store_Upsert (store relay) kind item (storeState w) = (None, s)"
      and "store_Get (store relay) kind (GetKey item) s = Inr (Some newItem)"
    using Upsert_read_item [OF that] by (simp add: makePingEvent_def)
  moreover have "fst (Upsert relay kind item w) = None \<and>
      publishedOn pingPublisher (effects (snd (Upsert relay kind item w))) =
        publishedOn pingPublisher (effects w)"
    if "store_Upsert (store relay) kind item (storeState w) = (None, s)"
      and "store_Get (store relay) kind (GetKey item) s = Inr None"
    using Upsert_read_nothing [OF that] by simp
  ultimately show ?thesis by blast
qed

theorem successful_mutation_pings_witness:
  "store_Init (store memRelay) (\<lambda>kind. None) (storeState freshWorld) =
     (None, memEmpty\<lparr>memInited := True\<rparr>) \<and>
   store_Delete (store memRelay) Features ''f'' 2 (storeState freshWorld) =
     (None, memEmpty\<lparr>memData := (\<lambda>kind. DAList.empty)
        (Features := DAList.update ''f'' \<lparr>GetKey = ''f'', GetVersion = 2, IsDeleted = True\<rparr> DAList.empty)\<rparr>) \<and>
   store_Upsert (store memRelay) Features flag1 (storeState freshWorld) =
     (None, memEmpty\<lparr>memData := (\<lambda>kind. DAList.empty)
        (Features := DAList.update ''f'' flag1 DAList.empty)\<rparr>) \<and>
   store_Get (store memRelay) Features (GetKey flag1)
     (memEmpty\<lparr>memData := (\<lambda>kind. DAList.empty)
        (Features := DAList.update ''f'' flag1 DAList.empty)\<rparr>) = Inr (Some flag1) \<and>
   store_Upsert (store memRelay) Features flag1 (storeState tombstoneWorld) =
     (None, storeState tombstoneWorld) \<and>
   store_Get (store memRelay) Features (GetKey flag1) (storeState tombstoneWorld) = Inr None \<and>
   publishedOn pingPublisher (effects (snd (Init memRelay (\<lambda>kind. None) freshWorld))) =
     [([''sdk-key''], pingEvent)] \<and>
   publishedOn pingPublisher (effects (snd (Delete memRelay Features ''f'' 2 freshWorld))) =
     [([''sdk-key''], pingEvent)] \<and>
   publishedOn pingPublisher (effects (snd (Upsert memRelay Features flag1 freshWorld))) =
     [([''sdk-key''], pingEvent)] \<and>
   fst (Upsert memRelay Features flag1 tombstoneWorld) = None"
proof -
  let ?sd = "memEmpty\<lparr>memData := (\<lambda>kind. DAList.empty)
        (Features := DAList.update ''f'' \<lparr>GetKey = ''f'', GetVersion = 2, IsDeleted = True\<rparr> DAList.empty)\<rparr>"
  let ?su = "memEmpty\<lparr>memData := (\<lambda>kind. DAList.empty)
        (Features := DAList.update ''f'' flag1 DAList.empty)\<rparr>"
  have i: "store_Init (store memRelay) (\<lambda>kind. None) (storeState freshWorld) =
     (None, memEmpty\<lparr>memInited := True\<rparr>)"
    by (simp add: mem_defs world_defs)
  have d: "store_Delete (store memRelay) Features ''f'' 2 (storeState freshWorld) = (None, ?sd)"
    by (simp add: mem_defs world_defs)
  have u: "store_Upsert (store memRelay) Features flag1 (storeState freshWorld) = (None, ?su)"
    by (simp add: mem_defs world_defs)
  have g: "store_Get (store memRelay) Features (GetKey flag1) ?su = Inr (Some flag1)"
    by (simp add: mem_defs world_defs)
  have u': "store_Upsert (store memRelay) Features flag1 (storeState tombstoneWorld) =
     (None, storeState tombstoneWorld)"
    by (simp add: mem_defs world_defs)
  have g': "store_Get (store memRelay) Features (GetKey flag1) (storeState tombstoneWorld) = Inr None"
    by (simp add: mem_defs world_defs)
  have k: "keys memRelay = [''sdk-key'']" "effects freshWorld = []"
    by (simp_all add: keys_def memRelay_def freshWorld_def)
  have a: "publishedOn pingPublisher (effects (snd (Init memRelay (\<lambda>kind. None) freshWorld))) =
     [([''sdk-key''], pingEvent)]"
    using i k successful_mutation_pings [of memRelay "\<lambda>kind. None" freshWorld
        "memEmpty\<lparr>memInited := True\<rparr>"]
    by simp
  have b: "publishedOn pingPublisher (effects (snd (Delete memRelay Features ''f'' 2 freshWorld))) =
     [([''sdk-key''], pingEvent)]"
    using d k successful_mutation_pings [of memRelay _ freshWorld ?sd Features "''f''" 2]
    by simp
  have c: "publishedOn pingPublisher (effects (snd (Upsert memRelay Features flag1 freshWorld))) =
     [([''sdk-key''], pingEvent)]"
    using u g k successful_mutation_pings [of memRelay _ freshWorld ?su Features _ _ flag1 flag1]
    by simp
  have e: "fst (Upsert memRelay Features flag1 tombstoneWorld) = None"
    using u' g' successful_mutation_pings [of memRelay _ tombstoneWorld "storeState tombstoneWorld"
        Features _ _ flag1]
    by simp
  show ?thesis using i d u g u' g' a b c e by simp
qed

section \<open>The errors Upsert returns\<close>

text \<open>
  Claim C4, as stated, fails: on a store whose write succeeds and whose reads fail, Upsert
  returns the read error, not success.
\<close>

theorem Upsert_returns_read_error:
  "fst (store_Upsert (store memRelay) Features flag1 (storeState readFailsWorld)) = None \<and>
   fst (Upsert memRelay Features flag1 readFailsWorld) = Some (Error ''read failed'')"
  by (simp add: Upsert_def mem_defs world_defs Let_def)

text \<open>
  Claim C4, amended. Upsert returns the store's write error when the write fails; when the
  write succeeds and the re-read of the item fails, it returns the read error; otherwise
  it returns success. The store is left as the write left it (nothing is rolled back).
  Whenever Upsert returns an error, its only effect besides the write is the debug line it
  logs on entry: nothing is published, and the error is not logged.
\<close>

theorem Upsert_returned_error:
  "fst (Upsert relay kind item w) =
     (case fst (store_Upsert (store relay) kind item (storeState w)) of
        Some writeErr \<Rightarrow> Some writeErr
      | None \<Rightarrow>
          (case store_Get (store relay) kind (GetKey item)
                  (snd (store_Upsert (store relay) kind item (storeState w))) of
             Inl readErr \<Rightarrow> Some readErr
           | Inr found \<Rightarrow> None)) \<and>
   storeState (snd (Upsert relay kind item w)) =
     snd (store_Upsert (store relay) kind item (storeState w)) \<and>
   (fst (Upsert relay kind item w) \<noteq> None \<longrightarrow>
      effects (snd (Upsert relay kind item w)) = effects w @
        [Debugf ''Received feature flag update: %s (version %d)''
           [S (GetKey item), I (GetVersion item)]])"
proof -
  obtain err s where w: "store_Upsert (store relay) kind item (storeState w) = (err, s)"
    by (cases "store_Upsert (store relay) kind item (storeState w)")
  show ?thesis
  proof (cases err)
    case (Some writeErr)
    then show ?thesis
      using w Upsert_write_error [of relay kind item w writeErr s] by simp
  next
    case None
    with w have ok: "store_Upsert (store relay) kind item (storeState w) = (None, s)"
      by simp
    show ?thesis
    proof (cases "store_Get (store relay) kind (GetKey item) s")
      case (Inl readErr)
      then show ?thesis
        using ok Upsert_read_error [OF ok Inl] by simp
    next
      case (Inr found)
      show ?thesis
      proof (cases found)
        case None
        then show ?thesis
          using ok Inr Upsert_read_nothing [OF ok] by simp
      next
        case (Some newItem)
        with Inr have g: "store_Get (store relay) kind (GetKey item) s = Inr (Some newItem)"
          by simp
        show ?thesis
          using ok g Upsert_read_item(1,2) [OF ok g] by simp
      qed
    qed
  qed
qed

theorem Upsert_returned_error_witness:
  "fst (Upsert memRelay Features flag1 readFailsWorld) \<noteq> None \<and>
   fst (Upsert memRelay Features flag1 readFailsWorld) = Some (Error ''read failed'') \<and>
   DAList.lookup (memData (storeState (snd (Upsert memRelay Features flag1 readFailsWorld))) Features) ''f''
     = Some flag1 \<and>
   effects (snd (Upsert memRelay Features flag1 readFailsWorld)) =
     [Debugf ''Received feature flag update: %s (version %d)'' [S ''f'', I 1]]"
proof -
  have u: "store_Upsert (store memRelay) Features flag1 (storeState readFailsWorld) =
      (None, memEmpty\<lparr>memData := (\<lambda>kind. DAList.empty)
         (Features := DAList.update ''f'' flag1 DAList.empty),
         memReadErr := Some (Error ''read failed'')\<rparr>)"
    by (simp add: mem_defs world_defs)
  have g: "store_Get (store memRelay) Features (GetKey flag1)
      (memEmpty\<lparr>memData := (\<lambda>kind. DAList.empty)
         (Features := DAList.update ''f'' flag1 DAList.empty),
         memReadErr := Some (Error ''read failed'')\<rparr>) = Inl (Error ''read failed'')"
    by (simp add: mem_defs world_defs)
  have k: "effects readFailsWorld = []" "GetKey flag1 = ''f''" "GetVersion flag1 = 1"
    by (simp_all add: world_defs)
  show ?thesis
    using Upsert_returned_error [of memRelay Features flag1 readFailsWorld] u g k
    by (simp add: memEmpty_def)
qed

section \<open>Delete\<close>

text \<open>
  Claim C5, as stated, fails: the store holds the tombstone of flag f at version 5; a Delete
  of f at version 3 returns success (the store ignores the stale write), the delete events
  on the All and Flags channels carry version 3, and the store still holds the tombstone
  at version 5.
\<close>

theorem Delete_stale_version_published:
  "fst (Delete memRelay Features ''f'' 3 tombstoneWorld) = None \<and>
   publishedOn allPublisher (effects (snd (Delete memRelay Features ''f'' 3 tombstoneWorld))) =
     [([''sdk-key''], deleteEvent ''/flags/f'' 3)] \<and>
   publishedOn flagsPublisher (effects (snd (Delete memRelay Features ''f'' 3 tombstoneWorld))) =
     [([''sdk-key''], deleteEvent ''/f'' 3)] \<and>
   DAList.lookup (memData (storeState (snd (Delete memRelay Features ''f'' 3 tombstoneWorld))) Features) ''f''
     = Some \<lparr>GetKey = ''f'', GetVersion = 5, IsDeleted = True\<rparr>"
  by (simp add: Delete_def mem_defs world_defs Let_def keys_def event_defs)

text \<open>
  Claim C5, amended. For every Delete whose write succeeds, the delete event published on
  the All channel, and the one published on the Flags channel when the kind is the flag
  kind, carry the version passed to Delete.
\<close>

theorem Delete_event_version:
  assumes "store_Delete (store relay) kind key version (storeState w) = (None, s)"
  shows "fst (Delete relay kind key version w) = None \<and>
    publishedOn allPublisher (effects (snd (Delete relay kind key version w))) =
      publishedOn allPublisher (effects w) @ [(keys relay, makeDeleteEvent kind key version)] \<and>
    publishedOn flagsPublisher (effects (snd (Delete relay kind key version w))) =
      publishedOn flagsPublisher (effects w) @
        (if kind = Features then [(keys relay, makeFlagsDeleteEvent key version)] else []) \<and>
    Version (makeDeleteEvent kind key version) = Some version \<and>
    Version (makeFlagsDeleteEvent key version) = Some version"
  using Delete_write_ok [OF assms]
  by (simp add: makeDeleteEvent_def makeFlagsDeleteEvent_def)

theorem Delete_event_version_witness:
  "store_Delete (store memRelay) Features ''f'' 7 (storeState tombstoneWorld) =
     (None, (storeState tombstoneWorld)\<lparr>memData := (memData (storeState tombstoneWorld))
        (Features := DAList.update ''f'' \<lparr>GetKey = ''f'', GetVersion = 7, IsDeleted = True\<rparr>
                       (memData (storeState tombstoneWorld) Features))\<rparr>) \<and>
   publishedOn allPublisher (effects (snd (Delete memRelay Features ''f'' 7 tombstoneWorld))) =
     [([''sdk-key''], deleteEvent ''/flags/f'' 7)] \<and>
   publishedOn flagsPublisher (effects (snd (Delete memRelay Features ''f'' 7 tombstoneWorld))) =
     [([''sdk-key''], deleteEvent ''/f'' 7)]"
proof -
  have d: "store_Delete (store memRelay) Features ''f'' 7 (storeState tombstoneWorld) =
     (None, (storeState tombstoneWorld)\<lparr>memData := (memData (storeState tombstoneWorld))
        (Features := DAList.update ''f'' \<lparr>GetKey = ''f'', GetVersion = 7, IsDeleted = True\<rparr>
                       (memData (storeState tombstoneWorld) Features))\<rparr>)"
    by (simp add: mem_defs world_defs)
  have k: "keys memRelay = [''sdk-key'']" "effects tombstoneWorld = []"
    by (simp_all add: keys_def memRelay_def tombstoneWorld_def)
  show ?thesis
    using d k Delete_event_version [OF d]
    by (simp add: event_defs)
qed

section \<open>Routing by kind\<close>

text \<open>
  Claim C6, as stated, fails: an Upsert of version 1 of a segment whose tombstone the store
  holds at version 5 returns success, and nothing is published on the All channel nor on
  the Ping channel.
\<close>

theorem Upsert_empty_reread_no_event:
  "fst (Upsert memRelay Segments seg1 tombstoneWorld) = None \<and>
   publishedOn allPublisher (effects (snd (Upsert memRelay Segments seg1 tombstoneWorld))) = [] \<and>
   publishedOn pingPublisher (effects (snd (Upsert memRelay Segments seg1 tombstoneWorld))) = []"
  by (simp add: Upsert_def mem_defs world_defs Let_def)

text \<open>
  Claim C6, amended. For every Delete whose write succeeds, and every Upsert whose write
  succeeds and whose re-read returns an item: one event is published on the All channel
  and one ping on the Ping channel, whatever the kind; one event is published on the Flags
  channel if the kind is the flag kind, and none if it is any other kind.
\<close>

theorem events_routed_by_kind:
  "(store_Delete (store relay) kind key version (storeState w) = (None, s) \<longrightarrow>
      fst (Delete relay kind key version w) = None \<and>
      publishedOn allPublisher (effects (snd (Delete relay kind key version w))) =
        publishedOn allPublisher (effects w) @ [(keys relay, makeDeleteEvent kind key version)] \<and>
      publishedOn flagsPublisher (effects (snd (Delete relay kind key version w))) =
        (if kind = Features
         then publishedOn flagsPublisher (effects w) @
                [(keys relay, makeFlagsDeleteEvent key version)]
         else publishedOn flagsPublisher (effects w)) \<and>
      publishedOn pingPublisher (effects (snd (Delete relay kind key version w))) =
        publishedOn pingPublisher (effects w) @ [(keys relay, makePingEvent)]) \<and>
   (store_Upsert (store relay) kind item (storeState w) = (None, s) \<and>
    store_Get (store relay) kind (GetKey item) s = Inr (Some newItem) \<longrightarrow>
      fst (Upsert relay kind item w) = None \<and>
      publishedOn allPublisher (effects (snd (Upsert relay kind item w))) =
        publishedOn allPublisher (effects w) @ [(keys relay, makeUpsertEvent kind newItem)] \<and>
      publishedOn flagsPublisher (effects (snd (Upsert relay kind item w))) =
        (if kind = Features
         then publishedOn flagsPublisher (effects w) @
                [(keys relay, makeFlagsUpsertEvent newItem)]
         else publishedOn flagsPublisher (effects w)) \<and>
      publishedOn pingPublisher (effects (snd (Upsert relay kind item w))) =
        publishedOn pingPublisher (effects w) @ [(keys relay, makePingEvent)])"
proof -
  have "fst (Delete relay kind key version w) = None \<and>
      publishedOn allPublisher (effects (snd (Delete relay kind key version w))) =
        publishedOn allPublisher (effects w) @ [(keys relay, makeDeleteEvent kind key version)] \<and>
      publishedOn flagsPublisher (effects (snd (Delete relay kind key version w))) =
        (if kind = Features
         then publishedOn flagsPublisher (effects w) @
                [(keys relay, makeFlagsDeleteEvent key version)]
         else publishedOn flagsPublisher (effects w)) \<and>
      publishedOn pingPublisher (effects (snd (Delete relay kind key version w))) =
        publishedOn pingPublisher (effects w) @ [(keys relay, makePingEvent)]"
    if "store_Delete (store relay) kind key version (storeState w) = (None, s)"
    using Delete_write_ok [OF that] by simp
  moreover have "fst (Upsert relay kind item w) = None \<and>
      publishedOn allPublisher (effects (snd (Upsert relay kind item w))) =
        publishedOn allPublisher (effects w) @ [(keys relay, makeUpsertEvent kind newItem)] \<and>
      publishedOn flagsPublisher (effects (snd (Upsert relay kind item w))) =
        (if kind = Features
         then publishedOn flagsPublisher (effects w) @
                [(keys relay, makeFlagsUpsertEvent newItem)]
         else publishedOn flagsPublisher (effects w)) \<and>
      publishedOn pingPublisher (effects (snd (Upsert relay kind item w))) =
        publishedOn pingPublisher (effects w) @ [(keys relay, makePingEvent)]"
    if "store_Upsert (store relay) kind item (storeState w) = (None, s)"
      and "store_Get (store relay) kind (GetKey item) s = Inr (Some newItem)"
    using Upsert_read_item [OF that] by simp
  ultimately show ?thesis by blast
qed

theorem events_routed_by_kind_witness:
  "store_Delete (store memRelay) Segments ''s'' 2 (storeState freshWorld) =
     (None, memEmpty\<lparr>memData := (\<lambda>kind. DAList.empty)
        (Segments := DAList.update ''s'' \<lparr>GetKey = ''s'', GetVersion = 2, IsDeleted = True\<rparr> DAList.empty)\<rparr>) \<and>
   store_Upsert (store memRelay) Segments seg1 (storeState freshWorld) =
     (None, memEmpty\<lparr>memData := (\<lambda>kind. DAList.empty)
        (Segments := DAList.update ''s'' seg1 DAList.empty)\<rparr>) \<and>
   store_Get (store memRelay) Segments (GetKey seg1)
     (memEmpty\<lparr>memData := (\<lambda>kind. DAList.empty)
        (Segments := DAList.update ''s'' seg1 DAList.empty)\<rparr>) = Inr (Some seg1) \<and>
   publishedOn allPublisher (effects (snd (Delete memRelay Segments ''s'' 2 freshWorld))) =
     [([''sdk-key''], deleteEvent ''/segments/s'' 2)] \<and>
   publishedOn flagsPublisher (effects (snd (Delete memRelay Segments ''s'' 2 freshWorld))) = [] \<and>
   publishedOn pingPublisher (effects (snd (Delete memRelay Segments ''s'' 2 freshWorld))) =
     [([''sdk-key''], pingEvent)] \<and>
   publishedOn allPublisher (effects (snd (Upsert memRelay Segments seg1 freshWorld))) =
     [([''sdk-key''], upsertEvent ''/segments/s'' seg1)] \<and>
   publishedOn flagsPublisher (effects (snd (Upsert memRelay Segments seg1 freshWorld))) = [] \<and>
   publishedOn pingPublisher (effects (snd (Upsert memRelay Segments seg1 freshWorld))) =
     [([''sdk-key''], pingEvent)]"
proof -
  let ?sd = "memEmpty\<lparr>memData := (\<lambda>kind. DAList.empty)
        (Segments := DAList.update ''s'' \<lparr>GetKey = ''s'', GetVersion = 2, IsDeleted = True\<rparr> DAList.empty)\<rparr>"
  let ?su = "memEmpty\<lparr>memData := (\<lambda>kind. DAList.empty)
        (Segments := DAList.update ''s'' seg1 DAList.empty)\<rparr>"
  have d: "store_Delete (store memRelay) Segments ''s'' 2 (storeState freshWorld) = (None, ?sd)"
    by (simp add: mem_defs world_defs)
  have u: "store_Upsert (store memRelay) Segments seg1 (storeState freshWorld) = (None, ?su)"
    by (simp add: mem_defs world_defs)
  have g: "store_Get (store memRelay) Segments (GetKey seg1) ?su = Inr (Some seg1)"
    by (simp add: mem_defs world_defs)
  have k: "keys memRelay = [''sdk-key'']" "effects freshWorld = []" "GetKey seg1 = ''s''"
    by (simp_all add: keys_def memRelay_def freshWorld_def seg1_def)
  show ?thesis
    using d u g k
      events_routed_by_kind [of memRelay Segments "''s''" 2 freshWorld ?sd]
      events_routed_by_kind [of memRelay Segments _ _ freshWorld ?su seg1 seg1]
    by (simp add: event_defs)
qed

section \<open>Paths\<close>

text \<open>
  Claim C7. The path of an upsert or delete event is a function of the kind and the key. The
  event that Delete and Upsert publish on the All channel has the path made of a slash,
  the API name of the kind, a slash and the key, where the API name of the flag kind is
  flags and that of the segment kind is segments; the event they publish on the Flags
  channel has the path made of a slash and the key. The key is the one given to Delete,
  and the one of the item that Upsert reads back.
\<close>

theorem event_paths:
  "(store_Delete (store relay) kind key version (storeState w) = (None, s) \<longrightarrow>
      publishedOn allPublisher (effects (snd (Delete relay kind key version w))) =
        publishedOn allPublisher (effects w) @
          [(keys relay, deleteEvent (''/'' @ apiNameOf kind @ ''/'' @ key) version)] \<and>
      publishedOn flagsPublisher (effects (snd (Delete relay kind key version w))) =
        publishedOn flagsPublisher (effects w) @
          (if kind = Features then [(keys relay, deleteEvent (''/'' @ key) version)] else [])) \<and>
   (store_Upsert (store relay) kind item (storeState w) = (None, s) \<and>
    store_Get (store relay) kind (GetKey item) s = Inr (Some newItem) \<longrightarrow>
      publishedOn allPublisher (effects (snd (Upsert relay kind item w))) =
        publishedOn allPublisher (effects w) @
          [(keys relay, upsertEvent (''/'' @ apiNameOf kind @ ''/'' @ GetKey newItem) newItem)] \<and>
      publishedOn flagsPublisher (effects (snd (Upsert relay kind item w))) =
        publishedOn flagsPublisher (effects w) @
          (if kind = Features
           then [(keys relay, upsertEvent (''/'' @ GetKey newItem) newItem)] else [])) \<and>
   Path (deleteEvent (''/'' @ apiNameOf kind @ ''/'' @ key) version) =
     Some (''/'' @ apiNameOf kind @ ''/'' @ key) \<and>
   Path (upsertEvent (''/'' @ apiNameOf kind @ ''/'' @ GetKey newItem) newItem) =
     Some (''/'' @ apiNameOf kind @ ''/'' @ GetKey newItem) \<and>
   Path (makeUpsertEvent kind item) = Some (''/'' @ apiNameOf kind @ ''/'' @ GetKey item) \<and>
   Path (makeDeleteEvent kind key version) = Some (''/'' @ apiNameOf kind @ ''/'' @ key) \<and>
   Path (makeFlagsUpsertEvent item) = Some (''/'' @ GetKey item) \<and>
   Path (makeFlagsDeleteEvent key version) = Some (''/'' @ key) \<and>
   apiNameOf Features = ''flags'' \<and>
   apiNameOf Segments = ''segments'' \<and>
   Path (makeUpsertEvent Features item) = Some (''/flags/'' @ GetKey item) \<and>
   Path (makeUpsertEvent Segments item) = Some (''/segments/'' @ GetKey item) \<and>
   Path (makeDeleteEvent Features key version) = Some (''/flags/'' @ key) \<and>
   Path (makeDeleteEvent Segments key version) = Some (''/segments/'' @ key)"
proof -
  have del: "publishedOn allPublisher (effects (snd (Delete relay kind key version w))) =
        publishedOn allPublisher (effects w) @
          [(keys relay, deleteEvent (''/'' @ apiNameOf kind @ ''/'' @ key) version)] \<and>
      publishedOn flagsPublisher (effects (snd (Delete relay kind key version w))) =
        publishedOn flagsPublisher (effects w) @
          (if kind = Features then [(keys relay, deleteEvent (''/'' @ key) version)] else [])"
    if "store_Delete (store relay) kind key version (storeState w) = (None, s)"
    using Delete_write_ok(3) [OF that]
    by (simp add: makeDeleteEvent_def makeFlagsDeleteEvent_def)
  have ups: "publishedOn allPublisher (effects (snd (Upsert relay kind item w))) =
        publishedOn allPublisher (effects w) @
          [(keys relay, upsertEvent (''/'' @ apiNameOf kind @ ''/'' @ GetKey newItem) newItem)] \<and>
      publishedOn flagsPublisher (effects (snd (Upsert relay kind item w))) =
        publishedOn flagsPublisher (effects w) @
          (if kind = Features
           then [(keys relay, upsertEvent (''/'' @ GetKey newItem) newItem)] else [])"
    if "store_Upsert (store relay) kind item (storeState w) = (None, s)"
      and "store_Get (store relay) kind (GetKey item) s = Inr (Some newItem)"
    using Upsert_read_item(3) [OF that]
    by (simp add: makeUpsertEvent_def makeFlagsUpsertEvent_def)
  have enc: "Path (makeUpsertEvent kind item) = Some (''/'' @ apiNameOf kind @ ''/'' @ GetKey item)"
    "Path (makeDeleteEvent kind key version) = Some (''/'' @ apiNameOf kind @ ''/'' @ key)"
    "Path (makeFlagsUpsertEvent item) = Some (''/'' @ GetKey item)"
    "Path (makeFlagsDeleteEvent key version) = Some (''/'' @ key)"
    "Path (makeUpsertEvent Features item) = Some (''/flags/'' @ GetKey item)"
    "Path (makeUpsertEvent Segments item) = Some (''/segments/'' @ GetKey item)"
    "Path (makeDeleteEvent Features key version) = Some (''/flags/'' @ key)"
    "Path (makeDeleteEvent Segments key version) = Some (''/segments/'' @ key)"
    by (simp_all add: event_defs)
  have names: "apiNameOf Features = ''flags''" "apiNameOf Segments = ''segments''"
    by (simp_all add: apiNameOf_def dataKindApiName_def)
  show ?thesis
    using del ups enc names by simp
qed

theorem event_paths_witness:
  "store_Delete (store memRelay) Features ''f'' 2 (storeState freshWorld) =
     (None, memEmpty\<lparr>memData := (\<lambda>kind. DAList.empty)
        (Features := DAList.update ''f'' \<lparr>GetKey = ''f'', GetVersion = 2, IsDeleted = True\<rparr> DAList.empty)\<rparr>) \<and>
   store_Upsert (store memRelay) Features flag1 (storeState liveWorld) =
     (None, storeState liveWorld) \<and>
   store_Get (store memRelay) Features (GetKey flag1) (storeState liveWorld) = Inr (Some flag5) \<and>
   publishedOn allPublisher (effects (snd (Delete memRelay Features ''f'' 2 freshWorld))) =
     [([''sdk-key''], deleteEvent ''/flags/f'' 2)] \<and>
   publishedOn flagsPublisher (effects (snd (Delete memRelay Features ''f'' 2 freshWorld))) =
     [([''sdk-key''], deleteEvent ''/f'' 2)] \<and>
   publishedOn allPublisher (effects (snd (Upsert memRelay Features flag1 liveWorld))) =
     [([''sdk-key''], upsertEvent ''/flags/f'' flag5)] \<and>
   publishedOn flagsPublisher (effects (snd (Upsert memRelay Features flag1 liveWorld))) =
     [([''sdk-key''], upsertEvent ''/f'' flag5)]"
proof -
  let ?sd = "memEmpty\<lparr>memData := (\<lambda>kind. DAList.empty)
        (Features := DAList.update ''f'' \<lparr>GetKey = ''f'', GetVersion = 2, IsDeleted = True\<rparr> DAList.empty)\<rparr>"
  have d: "store_Delete (store memRelay) Features ''f'' 2 (storeState freshWorld) = (None, ?sd)"
    by (simp add: mem_defs world_defs)
  have u: "store_Upsert (store memRelay) Features flag1 (storeState liveWorld) =
      (None, storeState liveWorld)"
    by (simp add: mem_defs world_defs)
  have g: "store_Get (store memRelay) Features (GetKey flag1) (storeState liveWorld) =
      Inr (Some flag5)"
    by (simp add: mem_defs world_defs)
  have k: "keys memRelay = [''sdk-key'']" "effects freshWorld = []" "effects liveWorld = []"
    "GetKey flag5 = ''f''" "apiNameOf Features = ''flags''"
    by (simp_all add: keys_def memRelay_def freshWorld_def liveWorld_def flag5_def
        apiNameOf_def dataKindApiName_def)
  have a: "publishedOn allPublisher (effects (snd (Delete memRelay Features ''f'' 2 freshWorld))) =
       [([''sdk-key''], deleteEvent ''/flags/f'' 2)] \<and>
     publishedOn flagsPublisher (effects (snd (Delete memRelay Features ''f'' 2 freshWorld))) =
       [([''sdk-key''], deleteEvent ''/f'' 2)]"
    using d k
      event_paths [where relay = memRelay and kind = Features and key = "''f''" and version = 2
        and w = freshWorld and s = "?sd"]
    by simp
  have b: "publishedOn allPublisher (effects (snd (Upsert memRelay Features flag1 liveWorld))) =
       [([''sdk-key''], upsertEvent ''/flags/f'' flag5)] \<and>
     publishedOn flagsPublisher (effects (snd (Upsert memRelay Features flag1 liveWorld))) =
       [([''sdk-key''], upsertEvent ''/f'' flag5)]"
    using u g k
      event_paths [where relay = memRelay and kind = Features and item = flag1
        and w = liveWorld and s = "storeState liveWorld" and newItem = flag5]
    by simp
  show ?thesis using d u g a b by simp
qed

section \<open>Replay\<close>

text \<open>
  Claim C8. While the store is not initialized, the replay of the Flags repository and the
  replay of the All repository send no event before they close their output; the replay
  of the Ping repository sends exactly one ping, whatever the state of the store.
\<close>

theorem Replay_before_Init:
  "(\<not> Initialized relayStore w \<longrightarrow>
      fst (flagsRepository_Replay relayStore channel ident w) = [] \<and>
      fst (allRepository_Replay relayStore channel ident w) = []) \<and>
   fst (pingRepository_Replay relayStore channel ident w) = [pingEvent]"
  by (simp add: flagsRepository_Replay_def allRepository_Replay_def pingRepository_Replay_def
      makePingEvent_def)

theorem Replay_before_Init_witness:
  "\<not> Initialized memRelay freshWorld \<and>
   fst (flagsRepository_Replay memRelay ''sdk-key'' [] freshWorld) = [] \<and>
   fst (allRepository_Replay memRelay ''sdk-key'' [] freshWorld) = [] \<and>
   fst (pingRepository_Replay memRelay ''sdk-key'' [] freshWorld) = [pingEvent]"
proof -
  have h: "\<not> Initialized memRelay freshWorld"
    by (simp add: Initialized_def mem_defs world_defs)
  show ?thesis
    using h Replay_before_Init [of memRelay freshWorld "''sdk-key''" "[]"]
    by simp
qed

section \<open>Heartbeat\<close>

lemma commentsOn_heartbeat:
  "commentsOn p (effects (heartbeat relay w)) = commentsOn p (effects w) @ [(keys relay, '''')]"
  by (cases p) (simp_all add: heartbeat_def Let_def)

lemma commentsOn_heartbeatLoop:
  "commentsOn p (effects (heartbeatLoop relay ticks w)) =
     commentsOn p (effects w) @ replicate (Suc ticks) (keys relay, '''')"
proof (induction ticks arbitrary: w)
  case 0
  show ?case by (simp add: commentsOn_heartbeat)
next
  case (Suc ticks)
  show ?case
    by (simp add: Suc.IH commentsOn_heartbeat replicate_app_Cons_same)
qed

lemma int64_in_range:
  assumes "- (2 ^ 63) \<le> x" and "x < 2 ^ 63"
  shows "int64 x = x"
proof -
  have "0 \<le> x + 2 ^ 63" and "x + 2 ^ 63 < 2 ^ 64"
    using assms by simp_all
  then have "(x + 2 ^ 63) mod 2 ^ 64 = x + 2 ^ 63"
    by (rule mod_pos_pos_trivial)
  then show ?thesis
    by (simp add: int64_def)
qed

text \<open>
  For every interval from 1 to 9223372036 seconds the ticker is created, the loop is
  entered, and the first heartbeat is published before the first tick.
\<close>

lemma heartbeatGoroutine_in_range:
  assumes "0 < heartbeatInterval" and "heartbeatInterval \<le> 9223372036"
  shows "heartbeatGoroutine relayStore heartbeatInterval ticks w =
    Inr (heartbeatLoop relayStore ticks w)"
proof -
  have a: "int64 heartbeatInterval = heartbeatInterval"
    using assms by (intro int64_in_range) simp_all
  have "heartbeatInterval * 1000000000 \<le> 9223372036 * 1000000000"
    using assms by (intro mult_right_mono) simp_all
  then have b: "int64 (heartbeatInterval * 1000000000) = heartbeatInterval * 1000000000"
    using assms by (intro int64_in_range) simp_all
  have "0 < heartbeatInterval * 1000000000"
    using assms by simp
  then show ?thesis
    by (simp add: heartbeatGoroutine_def NewTicker_def Second_def a b)
qed

lemma NewSSERelayFeatureStore_in_range:
  assumes "0 < heartbeatInterval" and "heartbeatInterval \<le> 9223372036"
  shows "\<exists>g. fst (snd (NewSSERelayFeatureStore key baseFeatureStore heartbeatInterval w)) = Some g \<and>
    (\<forall>w'. \<exists>w''. g 0 w' = Inr w'' \<and> effects w'' = effects w' @
       [PublishComment allPublisher [key] '''',
        PublishComment flagsPublisher [key] '''',
        PublishComment pingPublisher [key] '''']) \<and>
    (\<forall>w' ticks p. \<exists>w''. g ticks w' = Inr w'' \<and>
       commentsOn p (effects w'') =
         commentsOn p (effects w') @ replicate (Suc ticks) ([key], ''''))"
  using assms
  by (simp add: NewSSERelayFeatureStore_def Let_def heartbeatGoroutine_in_range
      commentsOn_heartbeatLoop keys_def heartbeat_def)

lemma NewSSERelayFeatureStore_not_positive:
  "(fst (snd (NewSSERelayFeatureStore key baseFeatureStore heartbeatInterval w)) = None) =
     (heartbeatInterval \<le> 0)"
  by (simp add: NewSSERelayFeatureStore_def Let_def)

text \<open>
  Claim C9 says that the heartbeat loop is started whenever the interval is positive, and
  that its first heartbeat is then published at once. At the interval of 9223372037
  seconds the code does otherwise: the interval is positive and the goroutine is started,
  but the period in nanoseconds wraps to a negative duration, the creation of the ticker
  panics, and the goroutine ends before the loop: whatever the number of ticks, no comment
  is published.
\<close>

theorem heartbeat_interval_overflow_panics:
  "0 < (9223372037 :: int) \<and>
   int64 (int64 9223372037 * Second) = - 9223372036709551616 \<and>
   (\<exists>g. fst (snd (NewSSERelayFeatureStore ''sdk-key'' memStore 9223372037 freshWorld)) = Some g \<and>
      (\<forall>ticks w'. g ticks w' = Inl (Panic ''non-positive interval for NewTicker'')))"
  by (simp add: NewSSERelayFeatureStore_def Let_def heartbeatGoroutine_def NewTicker_def
      int64_def Second_def)

section \<open>The put event of the All channel\<close>

lemma lookup_fold_update:
  "distinct (map fst xs) \<Longrightarrow>
   DAList.lookup (fold (\<lambda>(k, v) m. DAList.update k v m) xs m0) = DAList.lookup m0 ++ map_of xs"
proof (induction xs arbitrary: m0)
  case Nil
  show ?case by simp
next
  case (Cons kv xs)
  obtain k v where kv: "kv = (k, v)" by (cases kv)
  from Cons.prems kv have fresh: "map_of xs k = None" and d: "distinct (map fst xs)"
    by (auto simp: map_of_eq_None_iff)
  have "DAList.lookup (fold (\<lambda>(k, v) m. DAList.update k v m) (kv # xs) m0) =
        DAList.lookup (DAList.update k v m0) ++ map_of xs"
    using Cons.IH [OF d] kv by simp
  also have "\<dots> = DAList.lookup m0 ++ map_of (kv # xs)"
    using fresh kv by (auto simp: map_add_def fun_eq_iff lookup_update split: option.splits)
  finally show ?case .
qed

lemma lookup_fold_rangeOf:
  "DAList.lookup (fold (\<lambda>(k, v) m. DAList.update k v m) (rangeOf m) DAList.empty) = entriesOf m"
proof (cases m)
  case None
  then show ?thesis
    by (simp add: rangeOf_def entriesOf_def fun_eq_iff)
next
  case (Some al)
  have "DAList.lookup (fold (\<lambda>(k, v) m. DAList.update k v m) (DAList.impl_of al) DAList.empty) =
        DAList.lookup DAList.empty ++ map_of (DAList.impl_of al)"
    by (rule lookup_fold_update) simp
  also have "\<dots> = DAList.lookup al"
    by (simp add: fun_eq_iff map_add_def lookup.rep_eq empty.rep_eq split: option.splits)
  finally show ?thesis
    using Some by (simp add: rangeOf_def entriesOf_def)
qed

text \<open>
  Claim C10. For every pair of maps, nil or not, the payload of the put event of the All
  channel has exactly the two keys flags and segments; the object under flags holds
  exactly the entries of the first map, the object under segments exactly those of the
  second (none for a nil map). Init builds the event from the flag and the segment maps
  of its input and from nothing else, and the replay of the All repository from what the
  store returns for these two kinds.
\<close>

theorem makePutEvent_payload:
  "(\<exists>allData flagsObj segmentsObj.
      makePutEvent flags segments = allPutEvent (Some allData) \<and>
      dom (DAList.lookup allData) = {''flags'', ''segments''} \<and>
      DAList.lookup allData ''flags'' = Some (Some flagsObj) \<and>
      DAList.lookup flagsObj = entriesOf flags \<and>
      DAList.lookup allData ''segments'' = Some (Some segmentsObj) \<and>
      DAList.lookup segmentsObj = entriesOf segments) \<and>
   entriesOf None = Map.empty \<and>
   (store_Init (store relay) input (storeState w) = (None, s) \<longrightarrow>
      publishedOn allPublisher (effects (snd (Init relay input w))) =
        publishedOn allPublisher (effects w) @
          [(keys relay, makePutEvent (input Features) (input Segments))]) \<and>
   (Initialized relay w \<and> All_relay relay Features w = Inr flags \<and>
    All_relay relay Segments w = Inr segments \<longrightarrow>
      fst (allRepository_Replay relay channel ident w) = [makePutEvent flags segments])"
proof -
  have "dom (DAList.lookup (DAList.update ''segments'' b (DAList.update ''flags'' a DAList.empty)))
        = {''flags'', ''segments''}" for a b :: itemMap
    by (auto simp: lookup_update dom_def split: if_splits)
  then have "\<exists>allData flagsObj segmentsObj.
      makePutEvent flags segments = allPutEvent (Some allData) \<and>
      dom (DAList.lookup allData) = {''flags'', ''segments''} \<and>
      DAList.lookup allData ''flags'' = Some (Some flagsObj) \<and>
      DAList.lookup flagsObj = entriesOf flags \<and>
      DAList.lookup allData ''segments'' = Some (Some segmentsObj) \<and>
      DAList.lookup segmentsObj = entriesOf segments"
    by (simp add: makePutEvent_def Let_def lookup_fold_rangeOf lookup_update)
  moreover have "entriesOf None = Map.empty"
    by (simp add: entriesOf_def)
  moreover have "publishedOn allPublisher (effects (snd (Init relay input w))) =
        publishedOn allPublisher (effects w) @
          [(keys relay, makePutEvent (input Features) (input Segments))]"
    if "store_Init (store relay) input (storeState w) = (None, s)"
    using Init_write_ok(3) [OF that] by simp
  moreover have "fst (allRepository_Replay relay channel ident w) = [makePutEvent flags segments]"
    if "Initialized relay w \<and> All_relay relay Features w = Inr flags \<and>
        All_relay relay Segments w = Inr segments"
    using that by (simp add: allRepository_Replay_def)
  ultimately show ?thesis by blast
qed

theorem makePutEvent_payload_witness:
  "store_Init (store memRelay) initInput (storeState freshWorld) =
     (None, memEmpty\<lparr>memData := (\<lambda>kind. DAList.empty)
        (Features := DAList.update ''f'' flag1 DAList.empty), memInited := True\<rparr>) \<and>
   publishedOn allPublisher (effects (snd (Init memRelay initInput freshWorld))) =
     [([''sdk-key''], allPutEvent (Some (DAList.update ''segments'' (Some DAList.empty)
        (DAList.update ''flags'' (Some (DAList.update ''f'' flag1 DAList.empty)) DAList.empty))))] \<and>
   Initialized memRelay (snd (Init memRelay initInput freshWorld)) \<and>
   All_relay memRelay Features (snd (Init memRelay initInput freshWorld)) =
     Inr (Some (DAList.update ''f'' flag1 DAList.empty)) \<and>
   All_relay memRelay Segments (snd (Init memRelay initInput freshWorld)) =
     Inr (Some DAList.empty) \<and>
   fst (allRepository_Replay memRelay ''sdk-key'' [] (snd (Init memRelay initInput freshWorld))) =
     [allPutEvent (Some (DAList.update ''segments'' (Some DAList.empty)
        (DAList.update ''flags'' (Some (DAList.update ''f'' flag1 DAList.empty)) DAList.empty)))]"
proof -
  let ?s = "memEmpty\<lparr>memData := (\<lambda>kind. DAList.empty)
        (Features := DAList.update ''f'' flag1 DAList.empty), memInited := True\<rparr>"
  let ?w = "snd (Init memRelay initInput freshWorld)"
  have i: "store_Init (store memRelay) initInput (storeState freshWorld) = (None, ?s)"
    by (simp add: mem_defs world_defs initInput_def fun_eq_iff)
  have st: "storeState ?w = ?s"
    using Init_write_ok(2) [OF i] .
  have ini: "Initialized memRelay ?w"
    unfolding Initialized_def st by (simp add: mem_defs)
  have f: "All_relay memRelay Features ?w = Inr (Some (DAList.update ''f'' flag1 DAList.empty))"
    unfolding All_relay_def st by (simp add: mem_defs flag1_def alist_eval)
  have g: "All_relay memRelay Segments ?w = Inr (Some DAList.empty)"
    unfolding All_relay_def st by (simp add: mem_defs alist_eval)
  have m: "makePutEvent (Some (DAList.update ''f'' flag1 DAList.empty)) (Some DAList.empty) =
      allPutEvent (Some (DAList.update ''segments'' (Some DAList.empty)
        (DAList.update ''flags'' (Some (DAList.update ''f'' flag1 DAList.empty)) DAList.empty)))"
    by (simp add: makePutEvent_def rangeOf_def Let_def DAList.update.rep_eq DAList.empty.rep_eq)
  have k: "keys memRelay = [''sdk-key'']" "effects freshWorld = []"
    "initInput Features = Some (DAList.update ''f'' flag1 DAList.empty)"
    "initInput Segments = Some DAList.empty"
    by (simp_all add: keys_def memRelay_def freshWorld_def initInput_def)
  have a: "publishedOn allPublisher (effects ?w) =
     [([''sdk-key''], allPutEvent (Some (DAList.update ''segments'' (Some DAList.empty)
        (DAList.update ''flags'' (Some (DAList.update ''f'' flag1 DAList.empty)) DAList.empty))))]"
    using i k m makePutEvent_payload [where relay = memRelay and input = initInput
        and w = freshWorld and s = "?s"]
    by simp
  have b: "fst (allRepository_Replay memRelay ''sdk-key'' [] ?w) =
     [allPutEvent (Some (DAList.update ''segments'' (Some DAList.empty)
        (DAList.update ''flags'' (Some (DAList.update ''f'' flag1 DAList.empty)) DAList.empty)))]"
    using ini f g m makePutEvent_payload [where relay = memRelay and w = "?w"
        and flags = "Some (DAList.update ''f'' flag1 DAList.empty)"
        and segments = "Some DAList.empty" and channel = "''sdk-key''" and ident = "[]"]
    by simp
  show ?thesis using i a ini f g b by simp
qed

end
